theory Spec2Isabelle
  imports Complex_Main
begin

section \<open>Media worker: preload queue (media worker script)\<close>

text \<open>
  The worker keeps one module-level \<open>state\<close> object. JavaScript runs it on one event
  loop: a message handler, a timer callback or the continuation of an awaited fetch runs
  to its next \<open>await\<close> without interleaving. The model therefore has one record for the
  worker's \<open>state\<close>, and a surrounding \<open>world\<close> record for what lives outside it: the
  AbortControllers, the suspended \<open>processQueue\<close> invocations that wait for their fetch,
  the pending \<open>setTimeout\<close> callbacks, the messages posted to the main thread, and the
  Cache Storage.
\<close>

subsection \<open>Data\<close>

record queue_item =
  item_id :: string
  url :: string
  priority :: string
  attempts :: nat

record track =
  track_id :: string
  track_url :: string
  track_priority :: "string option"

record preload_info =
  startTime :: nat
  progress :: nat
  controller :: nat

record fetch_result =
  size :: nat
  duration :: rat
  contentType :: "string option"
  res_quality :: string

record preloaded_info =
  p_url :: string
  p_size :: nat
  p_duration :: rat
  p_timestamp :: nat

record worker_state =
  preloadQueue :: "queue_item list"
  preloading :: "string \<rightharpoonup> preload_info"
  preloaded :: "string \<rightharpoonup> preloaded_info"
  currentPreloads :: int
  maxConcurrent :: int
  networkType :: string
  cacheSize :: nat
  maxCacheSize :: nat
  quality :: string

text \<open>A suspended \<open>processQueue\<close> call: it holds its item, and \<open>fetchAndCache\<close> inside it
  holds the controller it read from \<open>state.preloading\<close> and the URL it is fetching.\<close>

record task =
  t_item :: queue_item
  t_controller :: nat
  t_quality :: string
  t_finalUrl :: string

record media_entry =
  m_contentType :: "string option"
  m_contentLength :: "string option"
  m_bytes :: nat
  m_preloadTime :: nat

text \<open>The errors that reach the \<open>catch\<close> of \<open>processQueue\<close>: the \<open>Error\<close> thrown for a
  response that is not ok (with its status), a rejected fetch, and the \<open>TypeError\<close> of
  reading a property of \<open>null\<close>.\<close>

datatype js_error = HttpError nat | FetchFailed string | TypeError

datatype message =
    PRELOAD_COMPLETE string fetch_result
  | PRELOAD_FAILED string js_error

text \<open>How the awaited fetch of a task ends: a response (its \<open>ok\<close> flag, status, the
  two headers and the body length), a transport error, or the rejection with
  \<open>AbortError\<close> that an aborted signal causes.\<close>

datatype fetch_outcome =
    Response bool nat "string option" "string option" nat
  | NetworkError string
  | AbortError

record world =
  state :: worker_state
  controllers :: "bool list"
  tasks :: "task list"
  timers :: "(nat \<times> queue_item) list"
  outbox :: "message list"
  cacheStorage :: "(string \<rightharpoonup> (string \<times> media_entry) list) option"
  clock :: nat

record network_info =
  net_type :: "string option"
  effectiveType :: "string option"
  saveData :: bool

datatype preload_reply = FromCache string | InProgress string | Queued string

subsection \<open>Configuration\<close>

definition PRELOAD_SIZE :: nat where "PRELOAD_SIZE = 1024 * 1024"
definition RETRY_ATTEMPTS :: nat where "RETRY_ATTEMPTS = 3"
definition RETRY_DELAY :: nat where "RETRY_DELAY = 1000"

definition QUALITY_BITRATES :: "string \<Rightarrow> nat option" where
  "QUALITY_BITRATES q =
     (if q = ''low'' then Some 96000
      else if q = ''medium'' then Some 128000
      else if q = ''high'' then Some 256000
      else if q = ''lossless'' then Some 1411000
      else None)"

definition initial_state :: worker_state where
  "initial_state = \<lparr> preloadQueue = [], preloading = Map.empty, preloaded = Map.empty,
     currentPreloads = 0, maxConcurrent = 2, networkType = ''unknown'', cacheSize = 0,
     maxCacheSize = 500 * 1024 * 1024, quality = ''auto'' \<rparr>"

definition initial_world :: world where
  "initial_world = \<lparr> state = initial_state, controllers = [], tasks = [], timers = [],
     outbox = [], cacheStorage = Some Map.empty, clock = 0 \<rparr>"

subsection \<open>String helper\<close>

text \<open>\<open>String.prototype.includes\<close>: the pattern occurs somewhere in the text.\<close>

fun starts_with :: "string \<Rightarrow> string \<Rightarrow> bool" where
  "starts_with s [] = True"
| "starts_with [] (p # ps) = False"
| "starts_with (c # cs) (p # ps) = (c = p \<and> starts_with cs ps)"

fun str_includes :: "string \<Rightarrow> string \<Rightarrow> bool" where
  "str_includes [] p = (p = [])"
| "str_includes (c # cs) p = (starts_with (c # cs) p \<or> str_includes cs p)"

subsection \<open>Operations\<close>

definition determineQuality :: "worker_state \<Rightarrow> string" where
  "determineQuality s =
     (if quality s \<noteq> ''auto'' then quality s
      else if networkType s = ''4g'' \<or> networkType s = ''wifi'' then ''high''
      else if networkType s = ''3g'' then ''medium''
      else if networkType s = ''2g'' \<or> networkType s = ''slow-2g'' then ''low''
      else ''medium'')"

definition estimateDuration :: "worker_state \<Rightarrow> nat \<Rightarrow> rat" where
  "estimateDuration s byteLength =
     (let bitrate = (case QUALITY_BITRATES (quality s) of Some b \<Rightarrow> b | None \<Rightarrow> 128000)
      in of_nat (byteLength * 8) / of_nat bitrate)"

text \<open>\<open>processQueue\<close> up to its first suspension: the two guards, \<open>shift\<close>, the counter,
  the new entry of \<open>state.preloading\<close> with a fresh AbortController, and the start of
  \<open>fetchAndCache\<close>, which reads that entry back and issues the fetch. One call
  dispatches at most one item.\<close>

definition processQueue :: "world \<Rightarrow> world" where
  "processQueue w =
     (let s = state w in
      if currentPreloads s \<ge> maxConcurrent s then w
      else case preloadQueue s of
        [] \<Rightarrow> w
      | item # rest \<Rightarrow>
          let c = length (controllers w);
              s' = s\<lparr> preloadQueue := rest,
                      currentPreloads := currentPreloads s + 1,
                      preloading := (preloading s)(item_id item \<mapsto>
                        \<lparr> startTime = clock w, progress = 0, controller = c \<rparr>) \<rparr>;
              q = determineQuality s'
          in w\<lparr> state := s',
                controllers := controllers w @ [False],
                tasks := tasks w @ [\<lparr> t_item = item, t_controller = c, t_quality = q,
                                     t_finalUrl = url item @ ''?quality='' @ q \<rparr>] \<rparr>)"

text \<open>The object literal \<open>{ id, url, priority, attempts: 0 }\<close> of \<open>preloadTrack\<close>, with the
  default \<open>priority = 'normal'\<close> of its destructuring.\<close>

definition queueItem :: "track \<Rightarrow> queue_item" where
  "queueItem t = \<lparr> item_id = track_id t, url = track_url t,
     priority = (case track_priority t of None \<Rightarrow> ''normal'' | Some p \<Rightarrow> p),
     attempts = 0 \<rparr>"

definition preloadTrack :: "track \<Rightarrow> world \<Rightarrow> preload_reply \<times> world" where
  "preloadTrack t w =
     (let s = state w; i = track_id t in
      if preloaded s i \<noteq> None then (FromCache i, w)
      else if preloading s i \<noteq> None then (InProgress i, w)
      else
        let q = (if priority (queueItem t) = ''high'' then queueItem t # preloadQueue s
                 else preloadQueue s @ [queueItem t])
        in (Queued i, processQueue (w\<lparr> state := s\<lparr> preloadQueue := q \<rparr> \<rparr>)))"

definition cancelPreload :: "string \<Rightarrow> world \<Rightarrow> world" where
  "cancelPreload trackId w =
     (let s = state w;
          s1 = s\<lparr> preloadQueue := filter (\<lambda>item. item_id item \<noteq> trackId) (preloadQueue s) \<rparr>
      in case preloading s1 trackId of
           None \<Rightarrow> w\<lparr> state := s1 \<rparr>
         | Some preloadInfo \<Rightarrow>
             processQueue
               (w\<lparr> controllers := (controllers w)[controller preloadInfo := True],
                    state := s1\<lparr> preloading := (preloading s1)(trackId := None),
                                 currentPreloads := currentPreloads s1 - 1 \<rparr> \<rparr>))"

definition clearCache :: "world \<Rightarrow> world" where
  "clearCache w =
     w\<lparr> state := (state w)\<lparr> preloaded := Map.empty, preloading := Map.empty,
                             preloadQueue := [] \<rparr>,
        cacheStorage := map_option (\<lambda>m. m(''media-cache'' := None)) (cacheStorage w) \<rparr>"

definition setQuality :: "string \<Rightarrow> world \<Rightarrow> world" where
  "setQuality q w = w\<lparr> state := (state w)\<lparr> quality := q \<rparr> \<rparr>"

text \<open>\<open>info.type || 'unknown'\<close>: a missing or empty type reads as \<open>'unknown'\<close>.\<close>

definition setNetworkInfo :: "network_info \<Rightarrow> world \<Rightarrow> world" where
  "setNetworkInfo info w =
     (let nt = (case net_type info of None \<Rightarrow> ''unknown''
                | Some t \<Rightarrow> if t = [] then ''unknown'' else t);
          mc = (if nt = ''2g'' \<or> nt = ''slow-2g'' then 1
                else if nt = ''3g'' then 2
                else 3)
      in w\<lparr> state := (state w)\<lparr> networkType := nt, maxConcurrent := mc \<rparr> \<rparr>)"

text \<open>\<open>fetchAndCache\<close> after its fetch has settled. \<open>Inl e\<close>: it throws \<open>e\<close>;
  \<open>Inr None\<close>: it returns \<open>null\<close> (the \<open>AbortError\<close> branch of its \<open>catch\<close>);
  \<open>Inr (Some r)\<close>: it returns the result object. The awaits that follow the fetch
  (reading the body, opening the cache, the put) are taken as one step.\<close>

definition fetchAndCache :: "task \<Rightarrow> fetch_outcome \<Rightarrow> world \<Rightarrow> (js_error + fetch_result option) \<times> world" where
  "fetchAndCache t out w =
     (case out of
        AbortError \<Rightarrow> (Inr None, w)
      | NetworkError m \<Rightarrow> (Inl (FetchFailed m), w)
      | Response ok status ctype clen byteLength \<Rightarrow>
          if \<not> ok then (Inl (HttpError status), w)
          else
            let w1 = (case cacheStorage w of
                        None \<Rightarrow> w
                      | Some m \<Rightarrow>
                          let cache = (case m ''media-cache'' of None \<Rightarrow> [] | Some c \<Rightarrow> c);
                              entry = \<lparr> m_contentType = ctype, m_contentLength = clen,
                                        m_bytes = byteLength, m_preloadTime = clock w \<rparr>;
                              cache' = filter (\<lambda>(k, e). k \<noteq> t_finalUrl t) cache
                                         @ [(t_finalUrl t, entry)]
                          in w\<lparr> cacheStorage := Some (m(''media-cache'' \<mapsto> cache')) \<rparr>);
                d = (case ctype of
                       None \<Rightarrow> 0
                     | Some ct \<Rightarrow> if str_includes ct ''audio''
                                  then estimateDuration (state w) byteLength else 0)
            in (Inr (Some \<lparr> size = byteLength, duration = d, contentType = ctype,
                             res_quality = t_quality t \<rparr>), w1))"

text \<open>The \<open>catch\<close> block of \<open>processQueue\<close>.\<close>

definition processQueue_catch :: "queue_item \<Rightarrow> js_error \<Rightarrow> world \<Rightarrow> world" where
  "processQueue_catch item e w =
     (if attempts item < RETRY_ATTEMPTS then
        let item' = item\<lparr> attempts := attempts item + 1 \<rparr>
        in w\<lparr> timers := timers w @ [(RETRY_DELAY * attempts item', item')] \<rparr>
      else w\<lparr> outbox := outbox w @ [PRELOAD_FAILED (item_id item) e] \<rparr>)"

text \<open>The \<open>finally\<close> block of \<open>processQueue\<close>.\<close>

definition processQueue_finally :: "queue_item \<Rightarrow> world \<Rightarrow> world" where
  "processQueue_finally item w =
     processQueue
       (w\<lparr> state := (state w)\<lparr> preloading := (preloading (state w))(item_id item := None),
                                currentPreloads := currentPreloads (state w) - 1 \<rparr> \<rparr>)"

text \<open>The rest of \<open>processQueue\<close>, run when the fetch of its task has settled. A \<open>null\<close>
  result makes \<open>result.size\<close> throw before \<open>state.preloaded.set\<close> is called, and the
  \<open>TypeError\<close> lands in the same \<open>catch\<close>.\<close>

definition processQueue_resume :: "task \<Rightarrow> fetch_outcome \<Rightarrow> world \<Rightarrow> world" where
  "processQueue_resume t out w =
     (let item = t_item t;
          (r, w1) = fetchAndCache t out w;
          w2 = (case r of
                  Inr (Some result) \<Rightarrow>
                    w1\<lparr> state := (state w1)\<lparr> preloaded := (preloaded (state w1))(item_id item \<mapsto>
                            \<lparr> p_url = url item, p_size = size result,
                              p_duration = duration result, p_timestamp = clock w1 \<rparr>) \<rparr>,
                        outbox := outbox w1 @ [PRELOAD_COMPLETE (item_id item) result] \<rparr>
                | Inr None \<Rightarrow> processQueue_catch item TypeError w1
                | Inl e \<Rightarrow> processQueue_catch item e w1)
      in processQueue_finally item w2)"

text \<open>The \<open>setTimeout\<close> callback of the retry.\<close>

definition requeue :: "queue_item \<Rightarrow> world \<Rightarrow> world" where
  "requeue item w =
     processQueue (w\<lparr> state := (state w)\<lparr> preloadQueue := preloadQueue (state w) @ [item] \<rparr> \<rparr>)"

subsection \<open>The event loop\<close>

text \<open>One turn of the event loop: a control message, the settling of the fetch of the
  \<open>i\<close>-th suspended task, or the firing of the \<open>j\<close>-th pending timer. A turn that
  cannot happen (no such task or timer; an \<open>AbortError\<close> for a signal that was never
  aborted) gives \<open>None\<close>. The signal of a preload fetch is always the one of the
  controller stored in \<open>state.preloading\<close>: \<open>fetchWithTimeout\<close> uses its own timeout
  controller only when the caller passes no signal, so \<open>cancelPreload\<close> is the one
  place that can abort a preload.\<close>

datatype event =
    PRELOAD_TRACK track
  | CANCEL_PRELOAD string
  | CLEAR_CACHE
  | SET_QUALITY string
  | SET_NETWORK network_info
  | FetchSettled nat fetch_outcome
  | TimerFired nat
  | Tick nat

definition remove_nth :: "nat \<Rightarrow> 'a list \<Rightarrow> 'a list" where
  "remove_nth i xs = take i xs @ drop (Suc i) xs"

fun step :: "event \<Rightarrow> world \<Rightarrow> world option" where
  "step (PRELOAD_TRACK t) w = Some (snd (preloadTrack t w))"
| "step (CANCEL_PRELOAD i) w = Some (cancelPreload i w)"
| "step CLEAR_CACHE w = Some (clearCache w)"
| "step (SET_QUALITY q) w = Some (setQuality q w)"
| "step (SET_NETWORK info) w = Some (setNetworkInfo info w)"
| "step (FetchSettled i out) w =
     (if i < length (tasks w) then
        let t = tasks w ! i; w' = w\<lparr> tasks := remove_nth i (tasks w) \<rparr> in
        if out = AbortError \<and> \<not> controllers w ! t_controller t then None
        else Some (processQueue_resume t out w')
      else None)"
| "step (TimerFired j) w =
     (if j < length (timers w) then
        Some (requeue (snd (timers w ! j)) (w\<lparr> timers := remove_nth j (timers w) \<rparr>))
      else None)"
| "step (Tick n) w = Some (w\<lparr> clock := clock w + n \<rparr>)"

fun run :: "event list \<Rightarrow> world \<Rightarrow> world option" where
  "run [] w = Some w"
| "run (e # es) w = (case step e w of None \<Rightarrow> None | Some w' \<Rightarrow> run es w')"


subsection \<open>The prefetcher's network adaptation\<close>

text \<open>\<open>Prefetch.adjustStrategy\<close> of the main thread, the other consumer of the network
  info: the part of \<open>this.config\<close> that it writes, and the function itself. An
  effective type that the \<open>switch\<close> does not list leaves the configuration as it is.\<close>

record prefetch_config =
  config_maxConcurrent :: int
  resourceTypes_image :: bool
  resourceTypes_audio :: bool

definition initial_prefetch_config :: prefetch_config where
  "initial_prefetch_config =
     \<lparr> config_maxConcurrent = 2, resourceTypes_image = True, resourceTypes_audio = False \<rparr>"

definition adjustStrategy :: "network_info \<Rightarrow> prefetch_config \<Rightarrow> prefetch_config" where
  "adjustStrategy info cfg =
     (if saveData info then
        cfg\<lparr> config_maxConcurrent := 1, resourceTypes_image := False,
             resourceTypes_audio := False \<rparr>
      else if effectiveType info = Some ''4g'' then
        cfg\<lparr> config_maxConcurrent := 3, resourceTypes_image := True,
             resourceTypes_audio := True \<rparr>
      else if effectiveType info = Some ''3g'' then
        cfg\<lparr> config_maxConcurrent := 2, resourceTypes_image := True,
             resourceTypes_audio := False \<rparr>
      else if effectiveType info = Some ''2g'' \<or> effectiveType info = Some ''slow-2g'' then
        cfg\<lparr> config_maxConcurrent := 1, resourceTypes_image := False,
             resourceTypes_audio := False \<rparr>
      else cfg)"

section \<open>Service worker: strategies and cache partitions\<close>

text \<open>
  The service worker keeps no state of its own; everything lives in the browser's Cache
  Storage. A cache is the list of its entries in insertion order (the order in which
  \<open>cache.keys()\<close> lists them), the Cache Storage the list of the named caches in
  creation order (the order in which \<open>caches.match\<close> searches them). Each entry carries
  the time of its \<open>put\<close>; no function of the script reads it. A strategy is one step
  from the cache storage before to the cache storage after: the one fetch it issues ends
  as the argument \<open>net\<close> says, and a \<open>put\<close> that the script does not await (also the one
  of the background refresh) is complete when the step ends. In \<open>networkFirst\<close> the
  \<open>put\<close> is started and not awaited before \<open>trimCache\<close> is: \<open>trimCache\<close> lists the
  keys of the cache as it was before this response, and the entry of the response is
  stored after it.
\<close>

record request =
  req_url :: string
  pathname :: string
  destination :: string
  mode :: string

record response =
  ok :: bool
  status :: nat
  body :: string

record cache_entry =
  key :: string
  resp :: response
  storedAt :: nat

type_synonym cache = "cache_entry list"
type_synonym cache_storage = "(string \<times> cache) list"

text \<open>How the one fetch that a strategy issues ends: with a response, or with a rejection
  (for \<open>networkFirst\<close> also: later than its timeout).\<close>

datatype net_outcome = Responded response | Failed

text \<open>What a strategy hands to \<open>respondWith\<close>: a response, \<open>undefined\<close> (a fallback
  that is not in the cache), or a rejected promise.\<close>

datatype served = Served response | Undefined | Rejected

definition CACHES_STATIC :: string where "CACHES_STATIC = ''tv-music-app-static-v1.0.0''"
definition CACHES_DYNAMIC :: string where "CACHES_DYNAMIC = ''tv-music-app-dynamic-v1.0.0''"
definition CACHES_MEDIA :: string where "CACHES_MEDIA = ''tv-music-app-media-v1.0.0''"
definition CACHES_IMAGES :: string where "CACHES_IMAGES = ''tv-music-app-images-v1.0.0''"
definition CACHES_API :: string where "CACHES_API = ''tv-music-app-api-v1.0.0''"

definition STATIC_RESOURCES :: "string list" where
  "STATIC_RESOURCES =
     [''/'', ''/index.html'', ''/manifest.json'', ''/css/tv-layout.css'', ''/css/animations.css'',
      ''/css/themes/dark.css'', ''/css/themes/light.css'', ''/js/app.js'', ''/js/player.js'',
      ''/js/navigation.js'', ''/js/cache.js'', ''/js/modules/lazy-loader.js'',
      ''/js/modules/virtual-scroll.js'', ''/js/modules/prefetch.js'', ''/fonts/main.woff2'',
      ''/images/logo.png'', ''/images/placeholder.jpg'', ''/sounds/navigate.mp3'',
      ''/sounds/select.mp3'', ''/offline.html'']"

text \<open>The entries of the object, in the order \<open>Object.entries\<close> lists them (insertion
  order, the keys being no array indices).\<close>

definition CACHE_STRATEGIES :: "(string \<times> string) list" where
  "CACHE_STRATEGIES =
     [(''/api/'', ''networkFirst''), (''/stream/'', ''cacheFirst''),
      (''/images/'', ''cacheFirst''), (''/static/'', ''cacheFirst''),
      (''/'', ''staleWhileRevalidate'')]"

definition CACHE_LIMITS_DYNAMIC :: nat where "CACHE_LIMITS_DYNAMIC = 50"
definition CACHE_LIMITS_MEDIA :: nat where "CACHE_LIMITS_MEDIA = 100"
definition CACHE_LIMITS_IMAGES :: nat where "CACHE_LIMITS_IMAGES = 200"
definition CACHE_LIMITS_API :: nat where "CACHE_LIMITS_API = 30"

text \<open>The expiration times, in seconds. The script declares them and uses them nowhere.\<close>

definition CACHE_EXPIRATION_STATIC :: nat where "CACHE_EXPIRATION_STATIC = 30 * 24 * 60 * 60"
definition CACHE_EXPIRATION_DYNAMIC :: nat where "CACHE_EXPIRATION_DYNAMIC = 7 * 24 * 60 * 60"
definition CACHE_EXPIRATION_MEDIA :: nat where "CACHE_EXPIRATION_MEDIA = 14 * 24 * 60 * 60"
definition CACHE_EXPIRATION_IMAGES :: nat where "CACHE_EXPIRATION_IMAGES = 30 * 24 * 60 * 60"
definition CACHE_EXPIRATION_API :: nat where "CACHE_EXPIRATION_API = 5 * 60"

subsection \<open>The Cache API\<close>

definition cache_match :: "cache \<Rightarrow> string \<Rightarrow> response option" where
  "cache_match c k = map_option resp (find (\<lambda>e. key e = k) c)"

fun caches_match :: "cache_storage \<Rightarrow> string \<Rightarrow> response option" where
  "caches_match [] k = None"
| "caches_match ((name, c) # rest) k =
     (case cache_match c k of Some r \<Rightarrow> Some r | None \<Rightarrow> caches_match rest k)"

definition cache_delete :: "string \<Rightarrow> cache \<Rightarrow> cache" where
  "cache_delete k c = filter (\<lambda>e. key e \<noteq> k) c"

definition cache_put :: "string \<Rightarrow> response \<Rightarrow> nat \<Rightarrow> cache \<Rightarrow> cache" where
  "cache_put k r now c = cache_delete k c @ [\<lparr> key = k, resp = r, storedAt = now \<rparr>]"

definition cache_keys :: "cache \<Rightarrow> string list" where
  "cache_keys c = map key c"

text \<open>\<open>caches.open\<close> creates the cache when there is none of that name.\<close>

definition caches_open :: "string \<Rightarrow> cache_storage \<Rightarrow> cache_storage" where
  "caches_open name cs = (if name \<in> set (map fst cs) then cs else cs @ [(name, [])])"

definition the_cache :: "cache_storage \<Rightarrow> string \<Rightarrow> cache" where
  "the_cache cs name = (case map_of cs name of None \<Rightarrow> [] | Some c \<Rightarrow> c)"

definition on_cache :: "string \<Rightarrow> (cache \<Rightarrow> cache) \<Rightarrow> cache_storage \<Rightarrow> cache_storage" where
  "on_cache name f cs = map (\<lambda>(n, c). if n = name then (n, f c) else (n, c)) (caches_open name cs)"

subsection \<open>Classification\<close>

text \<open>The \<open>for\<close> loop of \<open>getStrategyForRequest\<close> over the entries of the table.\<close>

fun strategy_loop :: "(string \<times> string) list \<Rightarrow> string \<Rightarrow> string option" where
  "strategy_loop [] path = None"
| "strategy_loop ((pattern, strategy) # rest) path =
     (if str_includes path pattern then Some strategy else strategy_loop rest path)"

definition getStrategyForRequest :: "request \<Rightarrow> string" where
  "getStrategyForRequest r =
     (case strategy_loop CACHE_STRATEGIES (pathname r) of
        Some strategy \<Rightarrow> strategy
      | None \<Rightarrow>
          if destination r = ''image'' then ''cacheFirst''
          else if destination r = ''script'' \<or> destination r = ''style'' then ''staleWhileRevalidate''
          else if str_includes (pathname r) ''/api/'' then ''networkFirst''
          else ''networkFirst'')"

text \<open>The name of the cache that \<open>getCacheForRequest\<close> opens.\<close>

definition getCacheForRequest :: "request \<Rightarrow> string" where
  "getCacheForRequest r =
     (if str_includes (pathname r) ''/api/'' then CACHES_API
      else if str_includes (pathname r) ''/stream/'' \<or> destination r = ''audio''
              \<or> destination r = ''video'' then CACHES_MEDIA
      else if destination r = ''image'' then CACHES_IMAGES
      else if pathname r \<in> set STATIC_RESOURCES then CACHES_STATIC
      else CACHES_DYNAMIC)"

definition shouldRefreshCache :: "request \<Rightarrow> bool" where
  "shouldRefreshCache r =
     (if pathname r \<in> set STATIC_RESOURCES then False
      else if str_includes (pathname r) ''/api/'' then True
      else False)"

subsection \<open>Eviction\<close>

text \<open>\<open>trimCache\<close> chooses \<open>maxItems\<close> from the request (\<open>trim_limit\<close>), lists the keys
  and deletes, one by one, the first \<open>keys.length - maxItems\<close> of them.\<close>

definition trim_limit :: "request \<Rightarrow> nat" where
  "trim_limit r =
     (if str_includes (pathname r) ''/api/'' then CACHE_LIMITS_API
      else if destination r = ''image'' then CACHE_LIMITS_IMAGES
      else if destination r = ''audio'' \<or> destination r = ''video'' then CACHE_LIMITS_MEDIA
      else CACHE_LIMITS_DYNAMIC)"

definition trimCache :: "request \<Rightarrow> cache \<Rightarrow> cache" where
  "trimCache r c =
     (let maxItems = trim_limit r; keys = cache_keys c in
      if length keys > maxItems then
        let keysToDelete = take (length keys - maxItems) keys
        in fold cache_delete keysToDelete c
      else c)"

subsection \<open>Strategies\<close>

definition getFallbackResponse :: "request \<Rightarrow> cache_storage \<Rightarrow> served" where
  "getFallbackResponse r cs =
     (if mode r = ''navigate'' then
        (case caches_match cs ''/offline.html'' of None \<Rightarrow> Undefined | Some x \<Rightarrow> Served x)
      else if destination r = ''image'' then
        (case caches_match cs ''/images/placeholder.jpg'' of None \<Rightarrow> Undefined | Some x \<Rightarrow> Served x)
      else if str_includes (pathname r) ''/api/'' then
        Served \<lparr> ok = False, status = 503,
                 body = ''{\"error\":true,\"message\":\"Offline\",\"cached\":false}'' \<rparr>
      else Served \<lparr> ok = False, status = 503, body = ''Offline'' \<rparr>)"

definition refreshCacheInBackground :: "request \<Rightarrow> net_outcome \<Rightarrow> nat \<Rightarrow> cache_storage \<Rightarrow> cache_storage" where
  "refreshCacheInBackground r net now cs =
     (case net of
        Responded x \<Rightarrow>
          if ok x then on_cache (getCacheForRequest r) (cache_put (req_url r) x now) cs else cs
      | Failed \<Rightarrow> cs)"

definition cacheFirst :: "request \<Rightarrow> net_outcome \<Rightarrow> nat \<Rightarrow> cache_storage \<Rightarrow> served \<times> cache_storage" where
  "cacheFirst r net now cs =
     (case caches_match cs (req_url r) of
        Some cached \<Rightarrow>
          (Served cached,
           if shouldRefreshCache r then refreshCacheInBackground r net now cs else cs)
      | None \<Rightarrow>
          (case net of
             Responded x \<Rightarrow>
               (Served x,
                if ok x then on_cache (getCacheForRequest r) (cache_put (req_url r) x now) cs
                else cs)
           | Failed \<Rightarrow> (getFallbackResponse r cs, cs)))"

definition networkFirst :: "request \<Rightarrow> net_outcome \<Rightarrow> nat \<Rightarrow> cache_storage \<Rightarrow> served \<times> cache_storage" where
  "networkFirst r net now cs =
     (let name = getCacheForRequest r; cs1 = caches_open name cs in
      case net of
        Responded x \<Rightarrow>
          (Served x,
           if ok x then on_cache name (cache_put (req_url r) x now) (on_cache name (trimCache r) cs1)
           else cs1)
      | Failed \<Rightarrow>
          (case caches_match cs1 (req_url r) of
             Some cached \<Rightarrow> (Served cached, cs1)
           | None \<Rightarrow> (getFallbackResponse r cs1, cs1)))"

definition staleWhileRevalidate :: "request \<Rightarrow> net_outcome \<Rightarrow> nat \<Rightarrow> cache_storage \<Rightarrow> served \<times> cache_storage" where
  "staleWhileRevalidate r net now cs =
     (let name = getCacheForRequest r; cs1 = caches_open name cs;
          cached = cache_match (the_cache cs1 name) (req_url r);
          cs2 = (case net of
                   Responded x \<Rightarrow>
                     if ok x then on_cache name (cache_put (req_url r) x now) cs1 else cs1
                 | Failed \<Rightarrow> cs1)
      in (case cached of
            Some c \<Rightarrow> Served c
          | None \<Rightarrow> (case net of Responded x \<Rightarrow> Served x | Failed \<Rightarrow> Rejected),
          cs2))"

section \<open>The classifier in the words of the specification\<close>

text \<open>The specification describes the table as one of path prefixes. This second
  classifier follows those words (the first rule whose pattern is a prefix of the path,
  then the default by kind); it is compared with \<open>getStrategyForRequest\<close> below and
  belongs to no source file.\<close>

fun prefix_rule_lookup :: "(string \<times> string) list \<Rightarrow> string \<Rightarrow> string option" where
  "prefix_rule_lookup [] path = None"
| "prefix_rule_lookup ((pre, strategy) # rest) path =
     (if starts_with path pre then Some strategy else prefix_rule_lookup rest path)"

definition classify_by_prefix :: "request \<Rightarrow> string" where
  "classify_by_prefix r =
     (case prefix_rule_lookup CACHE_STRATEGIES (pathname r) of
        Some strategy \<Rightarrow> strategy
      | None \<Rightarrow>
          if destination r = ''image'' then ''cacheFirst''
          else if destination r = ''script'' \<or> destination r = ''style'' then ''staleWhileRevalidate''
          else if starts_with (pathname r) ''/api/'' then ''networkFirst''
          else ''networkFirst'')"

section \<open>Concrete inputs\<close>

definition track_of :: "string \<Rightarrow> string option \<Rightarrow> track" where
  "track_of i p = \<lparr> track_id = i, track_url = ''/stream/'' @ i @ ''.mp3'', track_priority = p \<rparr>"

definition task_of :: "queue_item \<Rightarrow> task" where
  "task_of item = \<lparr> t_item = item, t_controller = 0, t_quality = ''medium'',
     t_finalUrl = url item @ ''?quality=medium'' \<rparr>"


definition nested_api_request :: request where
  "nested_api_request = \<lparr> req_url = ''https://tv.example/v1/api/users'',
     pathname = ''/v1/api/users'', destination = [], mode = ''cors'' \<rparr>"

definition bare_image_request :: request where
  "bare_image_request = \<lparr> req_url = ''blob:cover'', pathname = ''cover'',
     destination = ''image'', mode = ''no-cors'' \<rparr>"

definition image_response :: response where
  "image_response = \<lparr> ok = True, status = 200, body = ''png'' \<rparr>"

definition stored_image :: "nat \<Rightarrow> cache_entry" where
  "stored_image n = \<lparr> key = ''https://tv.example/images/cover-'' @ replicate n CHR ''x'' @ ''.png'',
     resp = image_response, storedAt = 0 \<rparr>"

text \<open>An images cache that holds exactly \<open>CACHE_LIMITS.IMAGES = 200\<close> entries.\<close>

definition images_at_limit :: cache_storage where
  "images_at_limit = [(CACHES_IMAGES, map stored_image [0..<200])]"

definition new_image_request :: request where
  "new_image_request = \<lparr> req_url = ''https://tv.example/images/new.png'',
     pathname = ''/images/new.png'', destination = ''image'', mode = ''no-cors'' \<rparr>"

definition stale_image :: response where
  "stale_image = \<lparr> ok = True, status = 200, body = ''old cover'' \<rparr>"

definition fresh_image :: response where
  "fresh_image = \<lparr> ok = True, status = 200, body = ''new cover'' \<rparr>"

text \<open>An images cache whose one entry was stored at time 0.\<close>

definition expired_store :: cache_storage where
  "expired_store = [(CACHES_IMAGES,
      [\<lparr> key = ''https://tv.example/images/new.png'', resp = stale_image, storedAt = 0 \<rparr>])]"

definition four_g_data_saver :: network_info where
  "four_g_data_saver = \<lparr> net_type = Some ''4g'', effectiveType = Some ''4g'', saveData = True \<rparr>"

definition cellular_two_g :: network_info where
  "cellular_two_g =
     \<lparr> net_type = Some ''cellular'', effectiveType = Some ''2g'', saveData = False \<rparr>"

section \<open>Facts about the worker\<close>

lemmas worker_defs = track_of_def queueItem_def initial_world_def initial_state_def
  preloadTrack_def processQueue_def cancelPreload_def processQueue_resume_def
  processQueue_finally_def processQueue_catch_def fetchAndCache_def remove_nth_def
  requeue_def determineQuality_def RETRY_ATTEMPTS_def RETRY_DELAY_def Let_def

lemma processQueue_blocked:
  "maxConcurrent (state w) \<le> currentPreloads (state w) \<Longrightarrow> processQueue w = w"
  by (simp add: processQueue_def)

lemma processQueue_timers [simp]: "timers (processQueue w) = timers w"
  by (simp add: processQueue_def Let_def split: list.splits)

lemma processQueue_outbox [simp]: "outbox (processQueue w) = outbox w"
  by (simp add: processQueue_def Let_def split: list.splits)

text \<open>A dispatch takes the head of the queue (\<open>shift\<close>): the order of the queue is the
  order of dispatch.\<close>

lemma processQueue_takes_head:
  "currentPreloads (state w) < maxConcurrent (state w) \<Longrightarrow> preloadQueue (state w) = item # rest
   \<Longrightarrow> preloadQueue (state (processQueue w)) = rest
      \<and> map t_item (tasks (processQueue w)) = map t_item (tasks w) @ [item]"
  by (simp add: processQueue_def Let_def)

text \<open>The retry callback appends at the tail, whatever the priority of the item.\<close>

lemma requeue_blocked_appends:
  "maxConcurrent (state w) \<le> currentPreloads (state w) \<Longrightarrow>
     preloadQueue (state (requeue item w)) = preloadQueue (state w) @ [item]"
  by (simp add: requeue_def processQueue_blocked)









text \<open>What \<open>setNetworkInfo\<close> computes, for every network info: the ceiling depends on
  \<open>info.type\<close> alone.\<close>

lemma setNetworkInfo_ceiling:
  "maxConcurrent (state (setNetworkInfo info w)) =
     (if net_type info = Some ''2g'' \<or> net_type info = Some ''slow-2g'' then 1
      else if net_type info = Some ''3g'' then 2
      else 3)"
  by (auto simp: setNetworkInfo_def Let_def split: option.splits)

section \<open>Facts about the service worker\<close>

lemma cache_match_absent:
  "k \<notin> key ` set c \<Longrightarrow> cache_match c k = None"
  by (induction c) (auto simp: cache_match_def)

lemma cache_put_absent_length:
  "k \<notin> key ` set c \<Longrightarrow> length (cache_put k r now c) = Suc (length c)"
proof -
  assume "k \<notin> key ` set c"
  then have "filter (\<lambda>e. key e \<noteq> k) c = c"
    by (induction c) auto
  then show ?thesis by (simp add: cache_put_def cache_delete_def)
qed

lemma new_image_not_stored:
  "req_url new_image_request \<notin> key ` set (map stored_image [0..<200])"
  by (auto simp: new_image_request_def stored_image_def)

text \<open>What \<open>trimCache\<close> achieves on the entries it lists: with one entry per key, the
  deletions leave the newest \<open>maxItems\<close> of them.\<close>

lemma fold_cache_delete_take:
  "distinct (map key c) \<Longrightarrow> fold cache_delete (take n (map key c)) c = drop n c"
proof (induction c arbitrary: n)
  case Nil
  then show ?case by simp
next
  case (Cons e c)
  show ?case
  proof (cases n)
    case 0
    then show ?thesis by simp
  next
    case (Suc m)
    from Cons.prems have notin: "key e \<notin> key ` set c" and d: "distinct (map key c)"
      by auto
    from notin have "filter (\<lambda>x. key x \<noteq> key e) c = c"
      by (induction c) auto
    then have "cache_delete (key e) (e # c) = c"
      by (simp add: cache_delete_def)
    with Suc Cons.IH [OF d, of m] show ?thesis by simp
  qed
qed

lemma trimCache_bound:
  "distinct (map key c) \<Longrightarrow> length (trimCache r c) \<le> trim_limit r"
  by (simp add: trimCache_def cache_keys_def Let_def fold_cache_delete_take)

lemma strategy_loop_None:
  "strategy_loop tbl path = None \<longleftrightarrow> (\<forall>rule \<in> set tbl. \<not> str_includes path (fst rule))"
  by (induction tbl path rule: strategy_loop.induct) auto

lemma strategy_loop_Some:
  "strategy_loop tbl path = Some s \<Longrightarrow>
     \<exists>i < length tbl. str_includes path (fst (tbl ! i))
        \<and> (\<forall>j < i. \<not> str_includes path (fst (tbl ! j))) \<and> s = snd (tbl ! i)"
proof (induction tbl path rule: strategy_loop.induct)
  case (1 path)
  then show ?case by simp
next
  case (2 pattern strategy rest path)
  show ?case
  proof (cases "str_includes path pattern")
    case True
    with 2 have "s = strategy" by simp
    with True show ?thesis by (intro exI [of _ 0]) simp
  next
    case False
    with 2 obtain i where i: "i < length rest" "str_includes path (fst (rest ! i))"
      "\<forall>j < i. \<not> str_includes path (fst (rest ! j))" "s = snd (rest ! i)"
      by auto
    have "\<forall>j < Suc i. \<not> str_includes path (fst (((pattern, strategy) # rest) ! j))"
      using False i(3) by (auto simp: less_Suc_eq_0_disj)
    with i show ?thesis by (intro exI [of _ "Suc i"]) simp
  qed
qed

text \<open>The last rule of the table, \<open>'/'\<close>, matches every path that contains a slash: for
  such a path the defaults by kind are never reached.\<close>

lemma slash_path_has_a_rule:
  "str_includes path ''/'' \<Longrightarrow> strategy_loop CACHE_STRATEGIES path \<noteq> None"
  by (simp add: CACHE_STRATEGIES_def)

section \<open>Eviction after a write\<close>

text \<open>
  C1. After every cache write of a strategy the partition holds at most its configured
  number of entries. Evaluated on the code: the request for a new image is classified
  \<open>cacheFirst\<close> and belongs to the images cache; that cache holds exactly
  \<open>CACHE_LIMITS.IMAGES\<close> entries; the network answers; \<open>cacheFirst\<close> stores the
  response and returns, and the cache holds one entry more than its limit.
  (\<open>trimCache_bound\<close> above is the bound that \<open>trimCache\<close>, which only \<open>networkFirst\<close>
  calls, puts on the entries it lists.)
\<close>

theorem cacheFirst_write_without_trim:
  "getStrategyForRequest new_image_request = ''cacheFirst''
   \<and> getCacheForRequest new_image_request = CACHES_IMAGES
   \<and> length (the_cache images_at_limit CACHES_IMAGES) = CACHE_LIMITS_IMAGES
   \<and> length (the_cache
        (snd (cacheFirst new_image_request (Responded image_response) 1 images_at_limit))
        CACHES_IMAGES) = CACHE_LIMITS_IMAGES + 1"
proof -
  have s: "getStrategyForRequest new_image_request = ''cacheFirst''"
    by (simp add: getStrategyForRequest_def new_image_request_def CACHE_STRATEGIES_def)
  have c: "getCacheForRequest new_image_request = CACHES_IMAGES"
    by (simp add: getCacheForRequest_def new_image_request_def)
  have l: "length (the_cache images_at_limit CACHES_IMAGES) = CACHE_LIMITS_IMAGES"
    by (simp add: the_cache_def images_at_limit_def CACHE_LIMITS_IMAGES_def)
  have m: "caches_match images_at_limit (req_url new_image_request) = None"
    by (simp add: images_at_limit_def cache_match_absent [OF new_image_not_stored])
  have "snd (cacheFirst new_image_request (Responded image_response) 1 images_at_limit)
        = [(CACHES_IMAGES, cache_put (req_url new_image_request) image_response 1
              (map stored_image [0..<200]))]"
    unfolding cacheFirst_def m c
    by (simp add: image_response_def on_cache_def caches_open_def images_at_limit_def)
  then have "length (the_cache
        (snd (cacheFirst new_image_request (Responded image_response) 1 images_at_limit))
        CACHES_IMAGES) = CACHE_LIMITS_IMAGES + 1"
    by (simp add: the_cache_def cache_put_absent_length [OF new_image_not_stored]
          CACHE_LIMITS_IMAGES_def)
  with s c l show ?thesis by simp
qed

section \<open>Deduplication of preload ids\<close>

text \<open>
  C2. Enqueuing an id that is already queued adds nothing. Evaluated on the code: two
  preloads occupy both slots, a third id \<open>c\<close> is enqueued and waits; the same message
  again is answered \<open>queued\<close> and the queue holds \<open>c\<close> twice.
\<close>

theorem preloadTrack_queued_twice:
  "map_option (\<lambda>w. (map item_id (preloadQueue (state w)), map (item_id \<circ> t_item) (tasks w)))
     (run [PRELOAD_TRACK (track_of ''x'' None), PRELOAD_TRACK (track_of ''y'' None),
           PRELOAD_TRACK (track_of ''c'' None)] initial_world)
   = Some ([''c''], [''x'', ''y''])
   \<and> map_option (\<lambda>w. fst (preloadTrack (track_of ''c'' None) w))
     (run [PRELOAD_TRACK (track_of ''x'' None), PRELOAD_TRACK (track_of ''y'' None),
           PRELOAD_TRACK (track_of ''c'' None)] initial_world)
   = Some (Queued ''c'')
   \<and> map_option (\<lambda>w. (map item_id (preloadQueue (state w)), map (item_id \<circ> t_item) (tasks w)))
     (run [PRELOAD_TRACK (track_of ''x'' None), PRELOAD_TRACK (track_of ''y'' None),
           PRELOAD_TRACK (track_of ''c'' None), PRELOAD_TRACK (track_of ''c'' None)] initial_world)
   = Some ([''c'', ''c''], [''x'', ''y''])"
  by (simp add: worker_defs)

section \<open>The in-flight counter\<close>

text \<open>
  C3. The counter \<open>currentPreloads\<close> is decremented once per dispatched task and is never
  negative. Evaluated on the code: one preload is dispatched (counter 1), cancelled
  (\<open>cancelPreload\<close> decrements: 0), and its aborted fetch rejects (the \<open>finally\<close> block
  decrements again): the counter is \<open>-1\<close> with no task in flight.
\<close>

theorem cancel_decrements_twice:
  "map_option (\<lambda>w. (currentPreloads (state w), length (tasks w)))
     (run [PRELOAD_TRACK (track_of ''a'' None)] initial_world) = Some (1, 1)
   \<and> map_option (\<lambda>w. (currentPreloads (state w), length (tasks w)))
     (run [PRELOAD_TRACK (track_of ''a'' None), CANCEL_PRELOAD ''a''] initial_world) = Some (0, 1)
   \<and> map_option (\<lambda>w. (currentPreloads (state w), length (tasks w)))
     (run [PRELOAD_TRACK (track_of ''a'' None), CANCEL_PRELOAD ''a'', FetchSettled 0 AbortError]
        initial_world) = Some (- 1, 0)"
  by (simp add: worker_defs)

section \<open>Cancellation\<close>

text \<open>
  C4. A preload cancelled in flight is not retried and causes no failure notification.
  Evaluated on the code: after the cancellation the aborted fetch rejects,
  \<open>fetchAndCache\<close> returns \<open>null\<close>, and \<open>processQueue\<close> ends in its \<open>catch\<close>: a retry
  timer of 1000 ms holds the item with \<open>attempts = 1\<close>, and when the timer fires the
  item is fetched again. Cancelled after three failed attempts, the item is reported
  with \<open>PRELOAD_FAILED\<close>.
\<close>

theorem cancelled_item_is_retried:
  "map_option (\<lambda>w. (timers w, outbox w))
     (run [PRELOAD_TRACK (track_of ''a'' None), CANCEL_PRELOAD ''a'', FetchSettled 0 AbortError]
        initial_world)
   = Some ([(1000, (queueItem (track_of ''a'' None))\<lparr> attempts := 1 \<rparr>)], [])
   \<and> map_option (\<lambda>w. map t_item (tasks w))
     (run [PRELOAD_TRACK (track_of ''a'' None), CANCEL_PRELOAD ''a'', FetchSettled 0 AbortError,
           TimerFired 0] initial_world)
   = Some [(queueItem (track_of ''a'' None))\<lparr> attempts := 1 \<rparr>]
   \<and> map_option outbox
     (run [PRELOAD_TRACK (track_of ''a'' None),
           FetchSettled 0 (NetworkError ''offline''), TimerFired 0,
           FetchSettled 0 (NetworkError ''offline''), TimerFired 0,
           FetchSettled 0 (NetworkError ''offline''), TimerFired 0,
           CANCEL_PRELOAD ''a'', FetchSettled 0 AbortError] initial_world)
   = Some [PRELOAD_FAILED ''a'' TypeError]"
  by (simp add: worker_defs)

section \<open>Retry and failure\<close>

text \<open>
  C5, as stated: an item that has failed three times is failed and one failure
  notification has been posted. On the code, after the third failure of an item nothing
  has been posted and the item waits in a retry timer of 3000 ms with \<open>attempts = 3\<close>.
\<close>

theorem three_failures_not_failed:
  "map_option (\<lambda>w. (outbox w, timers w))
     (run [PRELOAD_TRACK (track_of ''a'' None),
           FetchSettled 0 (NetworkError ''offline''), TimerFired 0,
           FetchSettled 0 (NetworkError ''offline''), TimerFired 0,
           FetchSettled 0 (NetworkError ''offline'')] initial_world)
   = Some ([], [(3000, (queueItem (track_of ''a'' None))\<lparr> attempts := 3 \<rparr>)])"
  by (simp add: worker_defs)

text \<open>
  C5, amended: when the fetch of an item fails (\<open>fetchAndCache\<close> throws \<open>e\<close>) with
  \<open>attempts < RETRY_ATTEMPTS\<close>, one retry timer is added, with the item's attempts
  incremented and a delay of \<open>RETRY_DELAY\<close> times the incremented attempts, and nothing
  is posted; when it fails with \<open>attempts \<ge> RETRY_ATTEMPTS\<close> (the fourth failure of an
  item, after three retries), exactly one \<open>PRELOAD_FAILED\<close> for its id is posted and no
  timer is added.
\<close>

theorem failure_requeues_or_notifies:
  assumes "fst (fetchAndCache t out w) = Inl e"
  shows "(attempts (t_item t) < RETRY_ATTEMPTS \<longrightarrow>
            timers (processQueue_resume t out w) =
              timers w @ [(RETRY_DELAY * (attempts (t_item t) + 1),
                           (t_item t)\<lparr> attempts := attempts (t_item t) + 1 \<rparr>)]
            \<and> outbox (processQueue_resume t out w) = outbox w)
       \<and> (RETRY_ATTEMPTS \<le> attempts (t_item t) \<longrightarrow>
            outbox (processQueue_resume t out w) =
              outbox w @ [PRELOAD_FAILED (item_id (t_item t)) e]
            \<and> timers (processQueue_resume t out w) = timers w)"
proof -
  from assms have w1: "fetchAndCache t out w = (Inl e, w)"
    by (cases out) (auto simp: fetchAndCache_def Let_def split: if_splits option.splits)
  show ?thesis
    by (simp add: processQueue_resume_def w1 processQueue_catch_def processQueue_finally_def
          Let_def)
qed

text \<open>C5, witness: the first failure of a new item, and a failure (HTTP 404) of an item
  with three attempts behind it.\<close>

theorem failure_requeues_or_notifies_witness:
  "fst (fetchAndCache (task_of (queueItem (track_of ''a'' None))) (NetworkError ''offline'')
          initial_world) = Inl (FetchFailed ''offline'')
   \<and> attempts (queueItem (track_of ''a'' None)) < RETRY_ATTEMPTS
   \<and> timers (processQueue_resume (task_of (queueItem (track_of ''a'' None)))
              (NetworkError ''offline'') initial_world)
       = [(1000, (queueItem (track_of ''a'' None))\<lparr> attempts := 1 \<rparr>)]
   \<and> outbox (processQueue_resume (task_of (queueItem (track_of ''a'' None)))
              (NetworkError ''offline'') initial_world) = []
   \<and> fst (fetchAndCache (task_of ((queueItem (track_of ''a'' None))\<lparr> attempts := 3 \<rparr>))
            (Response False 404 None None 0) initial_world) = Inl (HttpError 404)
   \<and> RETRY_ATTEMPTS \<le> attempts ((queueItem (track_of ''a'' None))\<lparr> attempts := 3 \<rparr>)
   \<and> outbox (processQueue_resume (task_of ((queueItem (track_of ''a'' None))\<lparr> attempts := 3 \<rparr>))
            (Response False 404 None None 0) initial_world) = [PRELOAD_FAILED ''a'' (HttpError 404)]
   \<and> timers (processQueue_resume (task_of ((queueItem (track_of ''a'' None))\<lparr> attempts := 3 \<rparr>))
            (Response False 404 None None 0) initial_world) = []"
proof -
  have f1: "fst (fetchAndCache (task_of (queueItem (track_of ''a'' None)))
          (NetworkError ''offline'') initial_world) = Inl (FetchFailed ''offline'')"
    by (simp add: fetchAndCache_def)
  have f2: "fst (fetchAndCache (task_of ((queueItem (track_of ''a'' None))\<lparr> attempts := 3 \<rparr>))
            (Response False 404 None None 0) initial_world) = Inl (HttpError 404)"
    by (simp add: fetchAndCache_def)
  have a1: "attempts (queueItem (track_of ''a'' None)) < RETRY_ATTEMPTS"
    by (simp add: queueItem_def RETRY_ATTEMPTS_def)
  have a2: "RETRY_ATTEMPTS \<le> attempts ((queueItem (track_of ''a'' None))\<lparr> attempts := 3 \<rparr>)"
    by (simp add: RETRY_ATTEMPTS_def)
  from failure_requeues_or_notifies [OF f1] failure_requeues_or_notifies [OF f2] f1 f2 a1 a2
  show ?thesis
    by (simp add: task_of_def queueItem_def track_of_def RETRY_DELAY_def initial_world_def)
qed

section \<open>Classification of requests\<close>

text \<open>
  C6, as stated: the table is matched by path prefix. For the path \<open>/v1/api/users\<close> the
  only pattern that is a prefix is \<open>'/'\<close>, which gives stale-while-revalidate; the code
  tests \<open>pathname.includes(pattern)\<close>, finds \<open>'/api/'\<close> inside the path first and answers
  network-first.
\<close>

theorem classifier_matches_inside_path:
  "getStrategyForRequest nested_api_request = ''networkFirst''
   \<and> classify_by_prefix nested_api_request = ''staleWhileRevalidate''"
  by (simp add: getStrategyForRequest_def classify_by_prefix_def nested_api_request_def
        CACHE_STRATEGIES_def)

text \<open>
  C6, amended: the strategy is that of the first rule, in the order of the table, whose
  pattern occurs anywhere in the path; if and only if no pattern occurs in the path, the
  default by kind applies: cache-first for an image, stale-while-revalidate for a script
  or a style, network-first for everything else.
\<close>

theorem getStrategyForRequest_first_match:
  "(\<exists>i < length CACHE_STRATEGIES.
       str_includes (pathname r) (fst (CACHE_STRATEGIES ! i))
     \<and> (\<forall>j < i. \<not> str_includes (pathname r) (fst (CACHE_STRATEGIES ! j)))
     \<and> getStrategyForRequest r = snd (CACHE_STRATEGIES ! i))
   \<or> ((\<forall>rule \<in> set CACHE_STRATEGIES. \<not> str_includes (pathname r) (fst rule))
     \<and> getStrategyForRequest r =
         (if destination r = ''image'' then ''cacheFirst''
          else if destination r = ''script'' \<or> destination r = ''style''
               then ''staleWhileRevalidate''
          else ''networkFirst''))"
proof (cases "strategy_loop CACHE_STRATEGIES (pathname r)")
  case None
  then have "\<forall>rule \<in> set CACHE_STRATEGIES. \<not> str_includes (pathname r) (fst rule)"
    by (simp only: strategy_loop_None)
  with None show ?thesis
    by (simp add: getStrategyForRequest_def)
next
  case (Some s)
  from strategy_loop_Some [OF Some] show ?thesis
    by (auto simp: getStrategyForRequest_def Some)
qed

text \<open>C6, witness: an image whose path contains none of the patterns, and a path in
  which the first rule of the table matches.\<close>

theorem getStrategyForRequest_first_match_witness:
  "list_all (\<lambda>rule. \<not> str_includes (pathname bare_image_request) (fst rule)) CACHE_STRATEGIES
   \<and> getStrategyForRequest bare_image_request = ''cacheFirst''
   \<and> str_includes (pathname nested_api_request) (fst (CACHE_STRATEGIES ! 0))
   \<and> getStrategyForRequest nested_api_request = snd (CACHE_STRATEGIES ! 0)"
proof -
  have none: "\<forall>rule \<in> set CACHE_STRATEGIES.
      \<not> str_includes (pathname bare_image_request) (fst rule)"
    by (simp add: CACHE_STRATEGIES_def bare_image_request_def)
  have img: "destination bare_image_request = ''image''"
    by (simp add: bare_image_request_def)
  have first: "str_includes (pathname nested_api_request) (fst (CACHE_STRATEGIES ! 0))"
    by (simp add: CACHE_STRATEGIES_def nested_api_request_def)
  have len: "0 < length CACHE_STRATEGIES"
    by (simp add: CACHE_STRATEGIES_def)
  have a: "getStrategyForRequest bare_image_request = ''cacheFirst''"
    using getStrategyForRequest_first_match [of bare_image_request]
  proof (elim disjE exE conjE)
    fix i
    assume "i < length CACHE_STRATEGIES"
      and "str_includes (pathname bare_image_request) (fst (CACHE_STRATEGIES ! i))"
    with none show ?thesis
      using nth_mem by blast
  next
    assume "getStrategyForRequest bare_image_request =
         (if destination bare_image_request = ''image'' then ''cacheFirst''
          else if destination bare_image_request = ''script''
                  \<or> destination bare_image_request = ''style''
               then ''staleWhileRevalidate''
          else ''networkFirst'')"
    with img show ?thesis by simp
  qed
  have b: "getStrategyForRequest nested_api_request = snd (CACHE_STRATEGIES ! 0)"
    using getStrategyForRequest_first_match [of nested_api_request]
  proof (elim disjE exE conjE)
    fix i
    assume earlier: "\<forall>j < i. \<not> str_includes (pathname nested_api_request) (fst (CACHE_STRATEGIES ! j))"
      and r: "getStrategyForRequest nested_api_request = snd (CACHE_STRATEGIES ! i)"
    from earlier first have "i = 0"
      by (cases i) blast+
    with r show ?thesis by simp
  next
    assume "\<forall>rule \<in> set CACHE_STRATEGIES.
        \<not> str_includes (pathname nested_api_request) (fst rule)"
    with first len show ?thesis
      using nth_mem by blast
  qed
  from none have "list_all (\<lambda>rule. \<not> str_includes (pathname bare_image_request) (fst rule))
      CACHE_STRATEGIES"
    by (simp only: list_all_iff)
  with a first b show ?thesis by blast
qed

section \<open>Expiration\<close>

text \<open>
  C7. An entry older than the expiration time of its partition is treated as absent.
  Evaluated on the code: the entry was stored at time 0, the lookup happens one second
  after \<open>CACHE_EXPIRATION.IMAGES\<close> (30 days) has passed, and the network has a new
  response. \<open>cacheFirst\<close> serves the stored entry; on a cache without the entry it serves
  the new response; and \<open>networkFirst\<close>, when the network fails, serves the stored entry
  as well.
\<close>

theorem expired_entry_still_served:
  "CACHE_EXPIRATION_IMAGES < 2592001 - storedAt (hd (the_cache expired_store CACHES_IMAGES))
   \<and> fst (cacheFirst new_image_request (Responded fresh_image) 2592001 expired_store)
       = Served stale_image
   \<and> fst (cacheFirst new_image_request (Responded fresh_image) 2592001 [(CACHES_IMAGES, [])])
       = Served fresh_image
   \<and> fst (networkFirst new_image_request Failed 2592001 expired_store) = Served stale_image"
  by (simp add: CACHE_EXPIRATION_IMAGES_def expired_store_def the_cache_def cacheFirst_def
        networkFirst_def cache_match_def new_image_request_def shouldRefreshCache_def
        STATIC_RESOURCES_def getCacheForRequest_def caches_open_def stale_image_def
        fresh_image_def)

section \<open>Order of dispatch\<close>




section \<open>The concurrency ceiling\<close>

text \<open>
  C9. The ceiling derived from new network info is 1 when the effective class is 2g or
  worse or data saving is enabled, 2 under 3g and 3 under 4g or better. Evaluated on the
  code: for a 4g connection with data saving enabled \<open>setNetworkInfo\<close> sets
  \<open>maxConcurrent\<close> to 3, where \<open>adjustStrategy\<close> of the prefetcher sets its ceiling to 1;
  and for the info that \<open>getNetworkInfo\<close> builds on a cellular connection of effective
  type 2g (\<open>type\<close> is the connection type, \<open>cellular\<close>), \<open>setNetworkInfo\<close>, which compares
  \<open>info.type\<close> with \<open>2g\<close>, \<open>slow-2g\<close> and \<open>3g\<close>, sets 3 again, where \<open>adjustStrategy\<close>
  sets 1.
\<close>

theorem setNetworkInfo_ignores_data_saver:
  "saveData four_g_data_saver
   \<and> maxConcurrent (state (setNetworkInfo four_g_data_saver initial_world)) = 3
   \<and> config_maxConcurrent (adjustStrategy four_g_data_saver initial_prefetch_config) = 1
   \<and> effectiveType cellular_two_g = Some ''2g''
   \<and> maxConcurrent (state (setNetworkInfo cellular_two_g initial_world)) = 3
   \<and> config_maxConcurrent (adjustStrategy cellular_two_g initial_prefetch_config) = 1"
  by (simp add: setNetworkInfo_def adjustStrategy_def four_g_data_saver_def
        cellular_two_g_def)

section \<open>Frame of clearCache\<close>

text \<open>
  C10. \<open>clearCache\<close> empties the preload queue, clears the \<open>preloading\<close> and \<open>preloaded\<close>
  maps and deletes the cache named media-cache; \<open>currentPreloads\<close>, \<open>maxConcurrent\<close>,
  \<open>networkType\<close>, \<open>quality\<close>, \<open>maxCacheSize\<close> (and \<open>cacheSize\<close>) keep their values, and no
  AbortController is touched: the controllers, the suspended fetches, the timers and
  the posted messages are the same after the call.
\<close>

theorem clearCache_frame:
  "preloadQueue (state (clearCache w)) = []
   \<and> preloading (state (clearCache w)) = Map.empty
   \<and> preloaded (state (clearCache w)) = Map.empty
   \<and> (case cacheStorage (clearCache w) of None \<Rightarrow> cacheStorage w = None
        | Some m \<Rightarrow> m ''media-cache'' = None)
   \<and> currentPreloads (state (clearCache w)) = currentPreloads (state w)
   \<and> maxConcurrent (state (clearCache w)) = maxConcurrent (state w)
   \<and> networkType (state (clearCache w)) = networkType (state w)
   \<and> quality (state (clearCache w)) = quality (state w)
   \<and> maxCacheSize (state (clearCache w)) = maxCacheSize (state w)
   \<and> cacheSize (state (clearCache w)) = cacheSize (state w)
   \<and> controllers (clearCache w) = controllers w
   \<and> tasks (clearCache w) = tasks w
   \<and> timers (clearCache w) = timers w
   \<and> outbox (clearCache w) = outbox w"
  by (cases "cacheStorage w") (simp_all add: clearCache_def)

end
